theory Spec2Isabelle
  imports Main
begin

section \<open>Service references, factories and override entries\<close>

text \<open>
  The file under verification is
  \<^verbatim>\<open>packages/backend-test-utils/src/next/wiring/TestBackend.ts\<close>.
  A service reference carries an identifier and a scope; the source reads
  \<^verbatim>\<open>ref.scope === 'plugin'\<close> and \<^verbatim>\<open>f.service.id\<close>.
\<close>

datatype scope = Root | Plugin

record service_ref =
  ref_id :: string
  ref_scope :: scope

text \<open>
  What a factory function resolves to: either the implementation itself
  (\<^verbatim>\<open>async () => impl\<close>) or a zero-argument provider of it
  (\<^verbatim>\<open>async () => async () => impl\<close>).
\<close>

datatype 'v provided = Direct 'v | Provider "unit \<Rightarrow> 'v"

text \<open>
  A service factory object \<^verbatim>\<open>{ service, deps, factory }\<close>. The field
  \<open>deps\<close> lists the declared dependencies (name and reference); the factory
  function receives the resolved dependencies, of type \<open>'d\<close>.
\<close>

record ('d, 'v) service_factory =
  service :: service_ref
  deps :: "(string \<times> service_ref) list"
  factory :: "'d \<Rightarrow> 'v provided"

text \<open>
  Modelled from the spec: \<^verbatim>\<open>createServiceFactory\<close> is imported from the
  package backend-plugin-api and is not part of the source file. The spec
  describes its use as wrapping a value in a factory with the given service,
  dependencies and factory function; calling the returned function with no
  arguments yields that factory object.
\<close>

definition createServiceFactory ::
  "('d, 'v) service_factory \<Rightarrow> unit \<Rightarrow> ('d, 'v) service_factory" where
  "createServiceFactory config = (\<lambda>_. config)"

text \<open>
  An entry of \<^verbatim>\<open>options.services\<close>, by its type in
  \<^verbatim>\<open>TestBackendOptions\<close>: a pair \<^verbatim>\<open>[ref, impl]\<close> (the only
  array shape), a function returning a factory, or a factory object.
\<close>

datatype ('d, 'v) serviceDef =
    ArrayDef service_ref 'v
  | FunctionDef "unit \<Rightarrow> ('d, 'v) service_factory"
  | FactoryDef "('d, 'v) service_factory"

text \<open>
  The callback of \<^verbatim>\<open>services.map(serviceDef => ...)\<close>, lines 175 to 197:
  first the \<^verbatim>\<open>Array.isArray\<close> branch with its scope test, then the
  \<^verbatim>\<open>typeof serviceDef === 'function'\<close> branch, then the cast.
\<close>

fun normalize_serviceDef :: "('d, 'v) serviceDef \<Rightarrow> ('d, 'v) service_factory" where
  "normalize_serviceDef (ArrayDef ref impl) =
     (if ref_scope ref = Plugin
      then createServiceFactory
             \<lparr>service = ref, deps = [], factory = (\<lambda>_. Provider (\<lambda>_. impl))\<rparr> ()
      else createServiceFactory
             \<lparr>service = ref, deps = [], factory = (\<lambda>_. Direct impl)\<rparr> ())"
| "normalize_serviceDef (FunctionDef f) = f ()"
| "normalize_serviceDef (FactoryDef f) = f"

definition factories :: "('d, 'v) serviceDef list \<Rightarrow> ('d, 'v) service_factory list" where
  "factories services = map normalize_serviceDef services"

text \<open>The identifier a factory is keyed by: \<^verbatim>\<open>f.service.id\<close>.\<close>

definition service_id :: "('d, 'v) service_factory \<Rightarrow> string" where
  "service_id f = ref_id (service f)"

section \<open>Merging the default factories\<close>

text \<open>
  Lines 199 to 203:
  \<^verbatim>\<open>for (const factory of defaultServiceFactories) {
     if (!factories.some(f => f.service.id === factory.service.id)) {
       factories.push(factory); } }\<close>
  The test runs against the list as it has grown so far. The first argument
  is the remainder of the default list (its head \<open>dflt\<close> is the loop
  variable \<^verbatim>\<open>factory\<close>), the second the growing list.
\<close>

fun merge_defaults ::
  "('d, 'v) service_factory list \<Rightarrow> ('d, 'v) service_factory list \<Rightarrow>
   ('d, 'v) service_factory list" where
  "merge_defaults [] fs = fs"
| "merge_defaults (dflt # rest) fs =
     merge_defaults rest
       (if \<not> list_ex (\<lambda>f. service_id f = service_id dflt) fs
        then fs @ [dflt] else fs)"

text \<open>
  The twelve default factories, line 85 to 98, in source order. Each is the
  result of calling a function of the package backend-app-api (or of the mock
  implementations), none of which is part of the source file: the calls are
  taken as the parameter \<open>call\<close>.
\<close>

datatype default_name =
    cacheFactory | databaseFactory | httpRouterFactory | lifecycleFactory
  | loggerFactory | mockConfigFactory | mockTokenManagerFactory
  | permissionsFactory | rootLifecycleFactory | rootLoggerFactory
  | schedulerFactory | urlReaderFactory

definition defaultServiceFactories ::
  "(default_name \<Rightarrow> ('d, 'v) service_factory) \<Rightarrow> ('d, 'v) service_factory list" where
  "defaultServiceFactories call =
     map call
       [cacheFactory, databaseFactory, httpRouterFactory, lifecycleFactory,
        loggerFactory, mockConfigFactory, mockTokenManagerFactory,
        permissionsFactory, rootLifecycleFactory, rootLoggerFactory,
        schedulerFactory, urlReaderFactory]"

text \<open>
  Modelled from the spec: the identifiers of the default services are declared
  outside the source file; the spec names the defaults cache, database,
  http-router, lifecycle, logger, mock config, mock token manager, permissions,
  root-lifecycle, root-logger, scheduler and url-reader. This sample
  implementation of the calls gives each default a factory with its own
  identifier; it is used for evaluating examples only.
\<close>

fun default_id :: "default_name \<Rightarrow> string" where
  "default_id cacheFactory = ''cache''"
| "default_id databaseFactory = ''database''"
| "default_id httpRouterFactory = ''httpRouter''"
| "default_id lifecycleFactory = ''lifecycle''"
| "default_id loggerFactory = ''logger''"
| "default_id mockConfigFactory = ''config''"
| "default_id mockTokenManagerFactory = ''tokenManager''"
| "default_id permissionsFactory = ''permissions''"
| "default_id rootLifecycleFactory = ''rootLifecycle''"
| "default_id rootLoggerFactory = ''rootLogger''"
| "default_id schedulerFactory = ''scheduler''"
| "default_id urlReaderFactory = ''urlReader''"

definition sample_call :: "default_name \<Rightarrow> (unit, nat) service_factory" where
  "sample_call n =
     \<lparr>service = \<lparr>ref_id = default_id n, ref_scope = Root\<rparr>, deps = [],
      factory = (\<lambda>_. Direct 0)\<rparr>"

text \<open>The merged list of lines 175 to 203 for a services list.\<close>

definition merged_factories ::
  "(default_name \<Rightarrow> ('d, 'v) service_factory) \<Rightarrow> ('d, 'v) serviceDef list \<Rightarrow>
   ('d, 'v) service_factory list" where
  "merged_factories call services =
     merge_defaults (defaultServiceFactories call) (factories services)"

section \<open>The live-server slot and the process state\<close>

text \<open>
  Modelled from the spec: the server handle type \<^verbatim>\<open>ExtendedHttpServer\<close> is
  declared in the package backend-app-api, outside the source file. The spec
  lists bound port lookup and start and stop control. A handle is identified
  by a number and carries the port that \<^verbatim>\<open>server.port()\<close> returns.
\<close>

record ExtendedHttpServer =
  server_handle :: nat
  server_port :: nat

text \<open>A thrown \<^verbatim>\<open>new Error(message)\<close>, or a rejection of an awaited call.\<close>

datatype error = Error string

text \<open>How a template literal renders an error: \<^verbatim>\<open>`${error}`\<close>.\<close>

fun error_to_string :: "error \<Rightarrow> string" where
  "error_to_string (Error message) = ''Error: '' @ message"

type_synonym addr = nat

datatype middleware = router_handler | middleware_notFound | middleware_error

record listen_options =
  listen_host :: string
  listen_port :: nat

text \<open>
  Calls that leave the function and writes to shared variables, in the order
  they are made. The shutdown hook is the closure
  \<^verbatim>\<open>async fn() { await server.stop(); }\<close>: it names the variable
  \<^verbatim>\<open>server\<close> of its activation, here the address of that binding. The
  steps of a \<^verbatim>\<open>startTestBackend\<close> activation carry the address of its
  binding as well: the call of \<^verbatim>\<open>createSpecializedBackend\<close>, the push onto
  the registry, the \<^verbatim>\<open>backend.add\<close> calls (taken together) and the call of
  \<^verbatim>\<open>backend.start()\<close>.
\<close>

datatype event =
    CreateHttpServer "middleware list" listen_options
  | SlotAssign addr ExtendedHttpServer
  | AddShutdownHook addr
  | ServerStart ExtendedHttpServer
  | ServerStop ExtendedHttpServer
  | CreateSpecializedBackend addr
  | RegistryPush addr
  | BackendAdd addr
  | BackendStart addr

text \<open>
  The state of the process. \<^verbatim>\<open>let server: ExtendedHttpServer;\<close> at line 116
  stands inside \<^verbatim>\<open>startTestBackend\<close>, so every activation of the function
  creates a binding of its own, captured by the closures that activation
  builds: \<open>cell\<close> maps the address of a binding to its content and
  \<open>next_free\<close> is the next unused address. The module-level variables are
  \<^verbatim>\<open>backendInstancesToCleanUp\<close> (line 100) and \<^verbatim>\<open>registered\<close>
  (line 239). The remaining fields record what the module did to its
  surroundings: the calls of \<open>event\<close>, the number of callbacks handed to
  \<^verbatim>\<open>afterAll\<close>, the lines written by \<^verbatim>\<open>console.error\<close>, and the
  backends whose \<^verbatim>\<open>stop\<close> was called by the teardown callback.
\<close>

record 'b world =
  cell :: "addr \<Rightarrow> ExtendedHttpServer option"
  next_free :: addr
  events :: "event list"
  backendInstancesToCleanUp :: "'b list"
  registered :: bool
  afterAll_callbacks :: nat
  console_error :: "string list"
  stop_calls :: "'b list"

text \<open>The state when the module has been loaded, before line 263 runs.\<close>

definition initial_world :: "'b world" where
  "initial_world =
     \<lparr>cell = (\<lambda>_. None), next_free = 0, events = [],
      backendInstancesToCleanUp = [], registered = False,
      afterAll_callbacks = 0, console_error = [], stop_calls = []\<rparr>"

text \<open>Line 116: a fresh, unassigned binding; its address is returned.\<close>

definition let_server :: "'b world \<Rightarrow> addr \<times> 'b world" where
  "let_server w =
     (next_free w,
      w\<lparr>cell := (cell w)(next_free w := None), next_free := Suc (next_free w)\<rparr>)"

definition emit :: "event \<Rightarrow> 'b world \<Rightarrow> 'b world" where
  "emit e w = w\<lparr>events := events w @ [e]\<rparr>"

text \<open>
  Line 210, \<^verbatim>\<open>backendInstancesToCleanUp.push(backend)\<close>, in the activation
  whose binding is \<open>a\<close>.
\<close>

definition registry_push :: "addr \<Rightarrow> 'b \<Rightarrow> 'b world \<Rightarrow> 'b world" where
  "registry_push a b w =
     emit (RegistryPush a)
       (w\<lparr>backendInstancesToCleanUp := backendInstancesToCleanUp w @ [b]\<rparr>)"

section \<open>The root HTTP router factory\<close>

text \<open>
  The results of the two awaited calls of the factory, both made by code
  outside the source file: \<^verbatim>\<open>createHttpServer(...)\<close> and
  \<^verbatim>\<open>server.start()\<close>. Either may reject.
\<close>

record outcomes =
  createHttpServer_outcome :: "error + ExtendedHttpServer"
  start_outcome :: "error + unit"

datatype router = DefaultRootHttpRouter

text \<open>\<^verbatim>\<open>app.use(m)\<close> appends to the request pipeline of the application.\<close>

definition app_use :: "middleware \<Rightarrow> middleware list \<Rightarrow> middleware list" where
  "app_use m app = app @ [m]"

text \<open>
  Lines 125 to 153, for the activation whose binding is \<open>a\<close>. A rejection
  of an awaited call leaves the function at that point.
\<close>

definition rootHttpRouterFactory ::
  "addr \<Rightarrow> outcomes \<Rightarrow> 'b world \<Rightarrow> (error + router) \<times> 'b world" where
  "rootHttpRouterFactory a env w =
     (let router = DefaultRootHttpRouter;
          app = app_use middleware_error
                  (app_use middleware_notFound (app_use router_handler []));
          w1 = emit (CreateHttpServer app \<lparr>listen_host = [], listen_port = 0\<rparr>) w
      in case createHttpServer_outcome env of
           Inl e \<Rightarrow> (Inl e, w1)
         | Inr created \<Rightarrow>
             let w2 = emit (SlotAssign a created) (w1\<lparr>cell := (cell w1)(a := Some created)\<rparr>);
                 w3 = emit (AddShutdownHook a) w2;
                 w4 = emit (ServerStart created) w3
             in case start_outcome env of
                  Inl e \<Rightarrow> (Inl e, w4)
                | Inr _ \<Rightarrow> (Inr router, w4))"

text \<open>
  Running the registered hook of binding \<open>a\<close>: \<^verbatim>\<open>await server.stop()\<close>
  reads the binding when the hook runs; on an unassigned binding the member
  access is a type error. The stop call itself is taken to succeed.
\<close>

definition shutdown_hook_fn :: "addr \<Rightarrow> 'b world \<Rightarrow> (error + unit) \<times> 'b world" where
  "shutdown_hook_fn a w =
     (case cell w a of
        None \<Rightarrow> (Inl (Error ''TypeError''), w)
      | Some s \<Rightarrow> (Inr (), emit (ServerStop s) w))"

text \<open>
  Whether the first \<open>x\<close> of a list of calls is followed by a \<open>y\<close>.
\<close>

fun occurs_before :: "'a \<Rightarrow> 'a \<Rightarrow> 'a list \<Rightarrow> bool" where
  "occurs_before x y [] = False"
| "occurs_before x y (e # es) = (if e = x then y \<in> set es else occurs_before x y es)"

section \<open>The discovery factory\<close>

text \<open>Decimal rendering of a port number in \<^verbatim>\<open>`http://localhost:${port}`\<close>.\<close>

definition digit_char :: "nat \<Rightarrow> char" where
  "digit_char d = ''0123456789'' ! d"

fun string_of_nat :: "nat \<Rightarrow> string" where
  "string_of_nat n =
     (if n < 10 then [digit_char n]
      else string_of_nat (n div 10) @ [digit_char (n mod 10)])"

declare string_of_nat.simps [simp del]

text \<open>
  Reading a string of decimal digits back as a number, most significant digit
  first. It is used to state what the rendering of the port is.
\<close>

definition digit_value :: "char \<Rightarrow> nat" where
  "digit_value c = length (takeWhile (\<lambda>d. d \<noteq> c) ''0123456789'')"

definition decimal_value :: "string \<Rightarrow> nat" where
  "decimal_value ds = foldl (\<lambda>n c. 10 * n + digit_value c) 0 ds"

text \<open>
  The configuration object of line 167 to 169,
  \<^verbatim>\<open>{ backend: { baseUrl, listen: { port } } }\<close>.
\<close>

record backend_config =
  backend_baseUrl :: string
  backend_listen_port :: nat

text \<open>
  Modelled from the spec: \<^verbatim>\<open>SingleHostDiscovery.fromConfig\<close> and
  \<^verbatim>\<open>ConfigReader\<close> come from other packages. The spec describes the
  result as a single-host discovery provider for the given configuration; the
  instance is represented by the configuration it was built from.
\<close>

datatype discovery = SingleHostDiscovery backend_config

text \<open>Lines 161 to 172, for the activation whose binding is \<open>a\<close>.\<close>

definition discoveryFactory :: "addr \<Rightarrow> 'b world \<Rightarrow> error + (unit \<Rightarrow> discovery)" where
  "discoveryFactory a w =
     (case cell w a of
        None \<Rightarrow> Inl (Error ''Test server not started yet'')
      | Some server \<Rightarrow>
          let port = server_port server;
              discovery = SingleHostDiscovery
                \<lparr>backend_baseUrl = ''http://localhost:'' @ string_of_nat port,
                 backend_listen_port = port\<rparr>
          in Inr (\<lambda>_. discovery))"

section \<open>Assembling and starting the backend\<close>

text \<open>The getter of lines 230 to 235, for the activation whose binding is \<open>a\<close>.\<close>

definition server_getter :: "addr \<Rightarrow> 'b world \<Rightarrow> error + ExtendedHttpServer" where
  "server_getter a w =
     (case cell w a of
        None \<Rightarrow> Inl (Error ''TestBackend server is not available'')
      | Some server \<Rightarrow> Inr server)"

text \<open>
  The framework is outside the source file. What it does with the factories
  it was handed while \<^verbatim>\<open>backend.start()\<close> runs is a list of steps: it may
  call the router factory (with the results of that call's awaited calls) and
  the discovery factory of this activation. A factory that fails makes the
  start fail with its error.
\<close>

datatype start_step = RunRouterFactory outcomes | RunDiscoveryFactory

fun run_steps :: "addr \<Rightarrow> start_step list \<Rightarrow> 'b world \<Rightarrow> (error + unit) \<times> 'b world" where
  "run_steps a [] w = (Inr (), w)"
| "run_steps a (RunRouterFactory env # steps) w =
     (case rootHttpRouterFactory a env w of
        (Inl e, w') \<Rightarrow> (Inl e, w')
      | (Inr _, w') \<Rightarrow> run_steps a steps w')"
| "run_steps a (RunDiscoveryFactory # steps) w =
     (case discoveryFactory a w of
        Inl e \<Rightarrow> (Inl e, w)
      | Inr _ \<Rightarrow> run_steps a steps w)"

text \<open>
  The service references the two synthesized factories name,
  \<^verbatim>\<open>coreServices.rootHttpRouter\<close>, \<^verbatim>\<open>coreServices.discovery\<close>,
  \<^verbatim>\<open>coreServices.config\<close>, \<^verbatim>\<open>coreServices.rootLifecycle\<close> and
  \<^verbatim>\<open>coreServices.rootLogger\<close>. The table is declared in the package
  backend-plugin-api, outside the source file, and is taken as a parameter.
\<close>

record coreServices =
  core_config :: service_ref
  core_discovery :: service_ref
  core_rootHttpRouter :: service_ref
  core_rootLifecycle :: service_ref
  core_rootLogger :: service_ref

text \<open>
  The two factories built at lines 118 to 173. Their factory functions are the
  closures \<open>rootHttpRouterFactory a\<close> and \<open>discoveryFactory a\<close> over the
  binding \<open>a\<close> of the activation that builds them.
\<close>

datatype synthesized_body = RootHttpRouterBody addr | DiscoveryBody addr

record synthesized_factory =
  synthesized_service :: service_ref
  synthesized_deps :: "(string \<times> service_ref) list"
  synthesized_body :: synthesized_body

definition rootHttpRouterFactory_entry :: "coreServices \<Rightarrow> addr \<Rightarrow> synthesized_factory" where
  "rootHttpRouterFactory_entry cs a =
     \<lparr>synthesized_service = core_rootHttpRouter cs,
      synthesized_deps =
        [(''config'', core_config cs), (''lifecycle'', core_rootLifecycle cs),
         (''rootLogger'', core_rootLogger cs)],
      synthesized_body = RootHttpRouterBody a\<rparr>"

definition discoveryFactory_entry :: "coreServices \<Rightarrow> addr \<Rightarrow> synthesized_factory" where
  "discoveryFactory_entry cs a =
     \<lparr>synthesized_service = core_discovery cs,
      synthesized_deps = [(''rootHttpRouter'', core_rootHttpRouter cs)],
      synthesized_body = DiscoveryBody a\<rparr>"

text \<open>
  An entry of the list handed to \<^verbatim>\<open>createSpecializedBackend\<close> at line 207,
  \<^verbatim>\<open>[...factories, rootHttpRouterFactory, discoveryFactory]\<close>: a factory of
  the merged list, or one of the two synthesized ones. The source hands over
  the latter as \<^verbatim>\<open>createServiceFactory\<close> returned them, for the framework
  to call.
\<close>

datatype ('d, 'v) backend_service =
    Supplied "('d, 'v) service_factory"
  | Synthesized synthesized_factory

definition backend_services ::
  "coreServices \<Rightarrow> (default_name \<Rightarrow> ('d, 'v) service_factory) \<Rightarrow>
   ('d, 'v) serviceDef list \<Rightarrow> addr \<Rightarrow> ('d, 'v) backend_service list" where
  "backend_services cs call services a =
     map Supplied (merged_factories call services) @
     [Synthesized (rootHttpRouterFactory_entry cs a),
      Synthesized (discoveryFactory_entry cs a)]"

fun backend_service_id :: "('d, 'v) backend_service \<Rightarrow> string" where
  "backend_service_id (Supplied f) = service_id f"
| "backend_service_id (Synthesized f) = ref_id (synthesized_service f)"

text \<open>
  A sample table of core services, named like the sample default set; it is
  used for evaluating examples only.
\<close>

definition sample_coreServices :: coreServices where
  "sample_coreServices =
     \<lparr>core_config = \<lparr>ref_id = ''config'', ref_scope = Root\<rparr>,
      core_discovery = \<lparr>ref_id = ''discovery'', ref_scope = Root\<rparr>,
      core_rootHttpRouter = \<lparr>ref_id = ''rootHttpRouter'', ref_scope = Root\<rparr>,
      core_rootLifecycle = \<lparr>ref_id = ''rootLifecycle'', ref_scope = Root\<rparr>,
      core_rootLogger = \<lparr>ref_id = ''rootLogger'', ref_scope = Root\<rparr>\<rparr>"

text \<open>
  The framework calls of one \<^verbatim>\<open>startTestBackend\<close> call:
  \<^verbatim>\<open>createSpecializedBackend\<close> (line 205), which receives the list of line
  207 and may throw; the \<^verbatim>\<open>backend.add\<close> calls (lines 212 to 225); and
  \<^verbatim>\<open>backend.start()\<close> (line 227), given as the steps it runs and its own
  result once they have succeeded.
\<close>

record ('d, 'v, 'b) framework =
  createSpecializedBackend :: "('d, 'v) backend_service list \<Rightarrow> error + 'b"
  add_outcome :: "error + unit"
  start_steps :: "start_step list"
  start_result :: "error + unit"

definition backend_start :: "('d, 'v, 'b) framework \<Rightarrow> addr \<Rightarrow> 'b world \<Rightarrow> (error + unit) \<times> 'b world" where
  "backend_start fw a w =
     (case run_steps a (start_steps fw) w of
        (Inl e, w') \<Rightarrow> (Inl e, w')
      | (Inr _, w') \<Rightarrow> (start_result fw, w'))"

record 'b TestBackend =
  backend :: 'b
  server :: ExtendedHttpServer

text \<open>
  Lines 108 to 237. The binding is declared, the two synthesized factories are
  built over it, and the services are normalized and merged with the defaults
  (lines 175 to 203). \<^verbatim>\<open>createSpecializedBackend\<close> receives the merged
  list followed by the two synthesized factories. The created backend is
  pushed onto the registry at line 210, then the registrar and the features
  are added, then the backend is started.
  \<^verbatim>\<open>Object.assign(backend, { get server() ... })\<close> copies the property by
  reading it from its second argument, so the getter runs once, there: when
  it throws, the call fails with its error, and otherwise the returned
  backend holds the handle that was read, as a plain property.
\<close>

definition startTestBackend ::
  "coreServices \<Rightarrow> (default_name \<Rightarrow> ('d, 'v) service_factory) \<Rightarrow>
   ('d, 'v, 'b) framework \<Rightarrow> ('d, 'v) serviceDef list \<Rightarrow> 'b world \<Rightarrow>
   (error + 'b TestBackend) \<times> 'b world" where
  "startTestBackend cs call fw services w =
     (case let_server w of
        (a, w1) \<Rightarrow>
          let w2 = emit (CreateSpecializedBackend a) w1
          in (case createSpecializedBackend fw (backend_services cs call services a) of
                Inl e \<Rightarrow> (Inl e, w2)
              | Inr created \<Rightarrow>
                  let w3 = registry_push a created w2;
                      w4 = emit (BackendAdd a) w3
                  in (case add_outcome fw of
                        Inl e \<Rightarrow> (Inl e, w4)
                      | Inr _ \<Rightarrow>
                          (case backend_start fw a (emit (BackendStart a) w4) of
                             (Inl e, w5) \<Rightarrow> (Inl e, w5)
                           | (Inr _, w5) \<Rightarrow>
                               (case server_getter a w5 of
                                  Inl e \<Rightarrow> (Inl e, w5)
                                | Inr s \<Rightarrow>
                                    (Inr \<lparr>backend = created, server = s\<rparr>, w5))))))"

section \<open>The global teardown hook\<close>

text \<open>
  The callback mapped over the registry, lines 251 to 257: it calls
  \<^verbatim>\<open>backend.stop()\<close>, whose result \<open>stop\<close> gives, and catches a rejection.
  Every callback makes its stop call when \<^verbatim>\<open>map\<close> invokes it, in registry
  order, and every stop call is taken to settle. The lines of
  \<^verbatim>\<open>console.error\<close> are kept in registry order, while the process writes
  them in the order the rejections arrive.
\<close>

definition stop_backend ::
  "('b \<Rightarrow> error + unit) \<Rightarrow> 'b \<Rightarrow> 'b world \<Rightarrow> (error + unit) \<times> 'b world" where
  "stop_backend stop b w =
     (let w1 = w\<lparr>stop_calls := stop_calls w @ [b]\<rparr>
      in case stop b of
           Inl e \<Rightarrow>
             (Inr (),
              w1\<lparr>console_error := console_error w1 @
                    [''Failed to stop backend after tests, '' @ error_to_string e]\<rparr>)
         | Inr _ \<Rightarrow> (Inr (), w1))"

fun map_stop ::
  "('b \<Rightarrow> error + unit) \<Rightarrow> 'b list \<Rightarrow> 'b world \<Rightarrow> (error + unit) list \<times> 'b world" where
  "map_stop stop [] w = ([], w)"
| "map_stop stop (b # bs) w =
     (case stop_backend stop b w of
        (r, w1) \<Rightarrow> (case map_stop stop bs w1 of (rs, w2) \<Rightarrow> (r # rs, w2)))"

text \<open>\<^verbatim>\<open>Promise.all\<close>: rejected as soon as one of the promises is.\<close>

fun Promise_all :: "(error + 'a) list \<Rightarrow> error + 'a list" where
  "Promise_all [] = Inr []"
| "Promise_all (Inl e # rs) = Inl e"
| "Promise_all (Inr x # rs) = (case Promise_all rs of Inl e \<Rightarrow> Inl e | Inr xs \<Rightarrow> Inr (x # xs))"

text \<open>The callback handed to \<^verbatim>\<open>afterAll\<close>, lines 249 to 260.\<close>

definition afterAll_callback ::
  "('b \<Rightarrow> error + unit) \<Rightarrow> 'b world \<Rightarrow> (error + unit) \<times> 'b world" where
  "afterAll_callback stop w =
     (case map_stop stop (backendInstancesToCleanUp w) w of
        (rs, w1) \<Rightarrow>
          (case Promise_all rs of
             Inl e \<Rightarrow> (Inl e, w1)
           | Inr _ \<Rightarrow> (Inr (), w1\<lparr>backendInstancesToCleanUp := []\<rparr>)))"

text \<open>
  Lines 240 to 261. The argument is the test
  \<^verbatim>\<open>typeof afterAll === 'function'\<close> at the time of the call.
\<close>

definition registerTestHooks :: "bool \<Rightarrow> 'b world \<Rightarrow> 'b world" where
  "registerTestHooks afterAll_is_function w =
     (if \<not> afterAll_is_function then w
      else if registered w then w
      else w\<lparr>registered := True, afterAll_callbacks := Suc (afterAll_callbacks w)\<rparr>)"

section \<open>Runs of the process\<close>

text \<open>
  One step of the process, as far as this module takes part in it: a whole
  \<^verbatim>\<open>startTestBackend\<close> call, or, for calls that overlap, its parts (the
  declaration of the binding, the push onto the registry, a run of a router
  factory); a run of a shutdown hook; the teardown callback; a call of
  \<^verbatim>\<open>registerTestHooks\<close>.
\<close>

inductive step ::
  "(default_name \<Rightarrow> ('d, 'v) service_factory) \<Rightarrow> 'b world \<Rightarrow> 'b world \<Rightarrow> bool"
  for call :: "default_name \<Rightarrow> ('d, 'v) service_factory" where
    step_call:
      "step call w
         (snd (startTestBackend cs call (fw :: ('d, 'v, 'b) framework) services w))"
  | step_declare: "step call w (snd (let_server w))"
  | step_push: "step call w (registry_push a b w)"
  | step_router: "step call w (snd (rootHttpRouterFactory a env w))"
  | step_hook: "step call w (snd (shutdown_hook_fn a w))"
  | step_teardown: "step call w (snd (afterAll_callback stop w))"
  | step_register: "step call w (registerTestHooks p w)"

section \<open>Properties of the override normalizer\<close>

text \<open>
  Claim C1. The normalizer treats each entry of the services list by its
  shape. For a pair of a reference and an implementation it returns a factory
  for that reference with no dependencies; when the reference is plugin-scoped
  the factory function resolves to a zero-argument provider that yields the
  implementation, and otherwise to the implementation itself. A callable entry
  is called with no arguments and its result is the factory. Any other entry
  is the factory, unchanged. The resulting list has one factory per entry, at
  the entry's position.
\<close>

theorem normalizer_by_shape:
  "(ref_scope ref = Plugin \<longrightarrow>
      service (normalize_serviceDef (ArrayDef ref impl)) = ref \<and>
      deps (normalize_serviceDef (ArrayDef ref impl)) = [] \<and>
      (\<exists>p. factory (normalize_serviceDef (ArrayDef ref impl)) d = Provider p \<and> p () = impl)) \<and>
   (ref_scope ref \<noteq> Plugin \<longrightarrow>
      service (normalize_serviceDef (ArrayDef ref impl)) = ref \<and>
      deps (normalize_serviceDef (ArrayDef ref impl)) = [] \<and>
      factory (normalize_serviceDef (ArrayDef ref impl)) d = Direct impl) \<and>
   normalize_serviceDef (FunctionDef g) = g () \<and>
   normalize_serviceDef (FactoryDef f) = f \<and>
   length (factories services) = length services \<and>
   (\<forall>i < length services. factories services ! i = normalize_serviceDef (services ! i))"
  by (simp add: createServiceFactory_def factories_def)

text \<open>
  An instance: a plugin-scoped pair, a root-scoped pair, a callable entry and
  a ready factory.
\<close>

theorem normalizer_by_shape_witness:
  "(\<exists>p. factory (normalize_serviceDef
           (ArrayDef \<lparr>ref_id = ''a'', ref_scope = Plugin\<rparr> (42::nat))) () = Provider p \<and>
        p () = 42) \<and>
   factory (normalize_serviceDef
           (ArrayDef \<lparr>ref_id = ''b'', ref_scope = Root\<rparr> (42::nat))) () = Direct 42 \<and>
   normalize_serviceDef (FunctionDef (\<lambda>_. sample_call loggerFactory)) =
     sample_call loggerFactory \<and>
   normalize_serviceDef (FactoryDef (sample_call cacheFactory)) = sample_call cacheFactory \<and>
   factories [FactoryDef (sample_call cacheFactory),
              FunctionDef (\<lambda>_. sample_call loggerFactory)] ! 1 =
     sample_call loggerFactory"
proof -
  let ?ss = "[FactoryDef (sample_call cacheFactory),
              FunctionDef (\<lambda>_. sample_call loggerFactory)]"
  note plugin_case =
    normalizer_by_shape [of "\<lparr>ref_id = ''a'', ref_scope = Plugin\<rparr>" "42::nat" "()"
      "\<lambda>_. sample_call loggerFactory" "sample_call cacheFactory" ?ss]
  note root_case =
    normalizer_by_shape [of "\<lparr>ref_id = ''b'', ref_scope = Root\<rparr>" "42::nat" "()"
      "\<lambda>_. sample_call loggerFactory" "sample_call cacheFactory" ?ss]
  have p: "ref_scope \<lparr>ref_id = ''a'', ref_scope = Plugin\<rparr> = Plugin"
    by simp
  have r: "ref_scope \<lparr>ref_id = ''b'', ref_scope = Root\<rparr> \<noteq> Plugin"
    by simp
  have "\<exists>p. factory (normalize_serviceDef
           (ArrayDef \<lparr>ref_id = ''a'', ref_scope = Plugin\<rparr> (42::nat))) () = Provider p \<and>
        p () = 42"
    using plugin_case p by blast
  moreover have "factory (normalize_serviceDef
           (ArrayDef \<lparr>ref_id = ''b'', ref_scope = Root\<rparr> (42::nat))) () = Direct 42"
    using root_case r by blast
  moreover have "normalize_serviceDef (FunctionDef (\<lambda>_. sample_call loggerFactory)) =
                 sample_call loggerFactory"
    using root_case by blast
  moreover have "normalize_serviceDef (FactoryDef (sample_call cacheFactory)) =
                 sample_call cacheFactory"
    using root_case by blast
  moreover have "factories ?ss ! 1 = sample_call loggerFactory"
  proof -
    have "\<forall>i < length ?ss. factories ?ss ! i = normalize_serviceDef (?ss ! i)"
      using root_case by blast
    then have "factories ?ss ! 1 = normalize_serviceDef (?ss ! 1)"
      by simp
    then show ?thesis by simp
  qed
  ultimately show ?thesis by blast
qed

section \<open>Properties of the default merger\<close>

lemma list_ex_service_id:
  "list_ex (\<lambda>f. service_id f = i) fs \<longleftrightarrow> i \<in> service_id ` set fs"
  by (induction fs) auto

text \<open>
  With pairwise distinct default identifiers the loop is a filter: the test
  against the grown list agrees with the test against the list it started
  from.
\<close>

lemma merge_defaults_filter:
  "distinct (map service_id ds) \<Longrightarrow>
   merge_defaults ds fs = fs @ filter (\<lambda>d. service_id d \<notin> service_id ` set fs) ds"
proof (induction ds arbitrary: fs)
  case Nil
  then show ?case by simp
next
  case (Cons d ds)
  have fresh: "service_id d \<notin> service_id ` set ds"
    using Cons.prems by simp
  have dist: "distinct (map service_id ds)"
    using Cons.prems by simp
  show ?case
  proof (cases "service_id d \<in> service_id ` set fs")
    case True
    then show ?thesis
      using Cons.IH [OF dist, of fs] by (simp add: list_ex_service_id)
  next
    case False
    have same: "filter (\<lambda>x. service_id x \<notin> service_id ` set (fs @ [d])) ds =
                filter (\<lambda>x. service_id x \<notin> service_id ` set fs) ds"
    proof (rule filter_cong [OF refl])
      fix x assume "x \<in> set ds"
      then have "service_id x \<noteq> service_id d"
        using fresh by (metis imageI)
      then show "(service_id x \<notin> service_id ` set (fs @ [d])) =
                 (service_id x \<notin> service_id ` set fs)"
        by simp
    qed
    show ?thesis
      using Cons.IH [OF dist, of "fs @ [d]"] False same
      by (simp add: list_ex_service_id)
  qed
qed

text \<open>No default is ever added under an identifier the list already has.\<close>

lemma merge_defaults_keeps_user:
  "i \<in> service_id ` set fs \<Longrightarrow>
   filter (\<lambda>f. service_id f = i) (merge_defaults ds fs) = filter (\<lambda>f. service_id f = i) fs"
proof (induction ds arbitrary: fs)
  case Nil
  then show ?case by simp
next
  case (Cons d ds)
  show ?case
  proof (cases "service_id d \<in> service_id ` set fs")
    case True
    then show ?thesis
      using Cons.IH [of fs] Cons.prems by (simp add: list_ex_service_id)
  next
    case False
    then have ne: "service_id d \<noteq> i"
      using Cons.prems by metis
    have "i \<in> service_id ` set (fs @ [d])"
      using Cons.prems by simp
    then show ?thesis
      using Cons.IH [of "fs @ [d]"] False ne by (simp add: list_ex_service_id)
  qed
qed

lemma merge_defaults_distinct:
  "distinct (map service_id fs) \<Longrightarrow> distinct (map service_id (merge_defaults ds fs))"
proof (induction ds arbitrary: fs)
  case Nil
  then show ?case by simp
next
  case (Cons d ds)
  show ?case
  proof (cases "service_id d \<in> service_id ` set fs")
    case True
    then show ?thesis
      using Cons.IH [of fs] Cons.prems by (simp add: list_ex_service_id)
  next
    case False
    then have "distinct (map service_id (fs @ [d]))"
      using Cons.prems by simp
    then show ?thesis
      using Cons.IH [of "fs @ [d]"] False by (simp add: list_ex_service_id)
  qed
qed

lemma filter_distinct_key:
  "distinct (map g xs) \<Longrightarrow> u \<in> set xs \<Longrightarrow> filter (\<lambda>f. g f = g u) xs = [u]"
proof (induction xs)
  case Nil
  then show ?case by simp
next
  case (Cons x xs)
  show ?case
  proof (cases "x = u")
    case True
    have "g u \<notin> g ` set xs"
      using Cons.prems True by simp
    then have "filter (\<lambda>f. g f = g u) xs = []"
      by (metis (mono_tags, lifting) filter_False imageI)
    then show ?thesis using True by simp
  next
    case False
    then have "u \<in> set xs"
      using Cons.prems by simp
    moreover from this have "g x \<noteq> g u"
      using Cons.prems by auto
    ultimately show ?thesis using Cons by simp
  qed
qed

lemma sample_ids:
  "map service_id (defaultServiceFactories sample_call) =
     [''cache'', ''database'', ''httpRouter'', ''lifecycle'', ''logger'', ''config'',
      ''tokenManager'', ''permissions'', ''rootLifecycle'', ''rootLogger'', ''scheduler'',
      ''urlReader'']"
  by (simp add: defaultServiceFactories_def sample_call_def service_id_def)

lemma sample_distinct: "distinct (map service_id (defaultServiceFactories sample_call))"
  unfolding sample_ids by simp

text \<open>
  Claim C2. Given the normalized user factories and the default set (whose
  identifiers are pairwise distinct), the merger returns the user list
  followed by exactly those defaults whose identifier does not occur in the
  user list. The user factories are unchanged and keep their positions in
  front of every appended default, and the appended defaults keep the order
  they have in the default set.
\<close>

theorem merge_appends_missing_defaults:
  assumes "distinct (map service_id (defaultServiceFactories call))"
  shows "merge_defaults (defaultServiceFactories call) fs =
         fs @ filter (\<lambda>d. service_id d \<notin> service_id ` set fs) (defaultServiceFactories call)"
  using assms by (rule merge_defaults_filter)

text \<open>
  An instance: a user list that overrides the logger and adds a service of
  its own. The logger default is left out; the other eleven follow in order.
\<close>

theorem merge_appends_missing_defaults_witness:
  "distinct (map service_id (defaultServiceFactories sample_call)) \<and>
   map service_id
     (merge_defaults (defaultServiceFactories sample_call)
        (factories [ArrayDef \<lparr>ref_id = ''logger'', ref_scope = Plugin\<rparr> 7,
                    ArrayDef \<lparr>ref_id = ''mine'', ref_scope = Root\<rparr> 8])) =
     [''logger'', ''mine'', ''cache'', ''database'', ''httpRouter'', ''lifecycle'', ''config'',
      ''tokenManager'', ''permissions'', ''rootLifecycle'', ''rootLogger'', ''scheduler'',
      ''urlReader'']"
proof -
  let ?fs = "factories [ArrayDef \<lparr>ref_id = ''logger'', ref_scope = Plugin\<rparr> (7::nat),
                        ArrayDef \<lparr>ref_id = ''mine'', ref_scope = Root\<rparr> 8]
               :: (unit, nat) service_factory list"
  have ids: "service_id ` set ?fs = {''logger'', ''mine''}"
    by (simp add: factories_def createServiceFactory_def service_id_def)
  have "map service_id (merge_defaults (defaultServiceFactories sample_call) ?fs) =
        map service_id ?fs @
        filter (\<lambda>i. i \<notin> service_id ` set ?fs)
          (map service_id (defaultServiceFactories sample_call))"
    by (simp add: merge_appends_missing_defaults [OF sample_distinct] filter_map comp_def)
  also have "\<dots> =
     [''logger'', ''mine'', ''cache'', ''database'', ''httpRouter'', ''lifecycle'', ''config'',
      ''tokenManager'', ''permissions'', ''rootLifecycle'', ''rootLogger'', ''scheduler'',
      ''urlReader'']"
    unfolding ids sample_ids
    by (simp add: factories_def createServiceFactory_def service_id_def)
  finally show ?thesis using sample_distinct by simp
qed

text \<open>
  Claim C3 as stated fails: a services list may name one identifier twice,
  and the merger never removes a user factory. Here both user factories for
  the logger are in the merged list.
\<close>

theorem duplicate_user_ids_counterexample:
  "length (filter (\<lambda>f. service_id f = ''logger'')
     (merged_factories sample_call
        [ArrayDef \<lparr>ref_id = ''logger'', ref_scope = Plugin\<rparr> 7,
         ArrayDef \<lparr>ref_id = ''logger'', ref_scope = Plugin\<rparr> 8])) = 2"
  by (simp add: merged_factories_def defaultServiceFactories_def sample_call_def factories_def
      createServiceFactory_def service_id_def)

text \<open>
  Claim C3, amended. For every services list whose normalized factories have
  pairwise distinct identifiers, the merged list has exactly one factory per
  identifier, and for every user-supplied factory the one factory of the
  merged list with its identifier is that user factory; in particular no
  default with a matching identifier survives.
\<close>

theorem merged_one_per_id:
  assumes "distinct (map service_id (factories services))"
  shows "distinct (map service_id (merged_factories call services)) \<and>
         (\<forall>u \<in> set (factories services).
            filter (\<lambda>f. service_id f = service_id u) (merged_factories call services) = [u])"
proof
  show "distinct (map service_id (merged_factories call services))"
    unfolding merged_factories_def using assms by (rule merge_defaults_distinct)
next
  show "\<forall>u \<in> set (factories services).
          filter (\<lambda>f. service_id f = service_id u) (merged_factories call services) = [u]"
  proof
    fix u assume u: "u \<in> set (factories services)"
    then have "service_id u \<in> service_id ` set (factories services)"
      by simp
    then have "filter (\<lambda>f. service_id f = service_id u) (merged_factories call services) =
               filter (\<lambda>f. service_id f = service_id u) (factories services)"
      unfolding merged_factories_def by (rule merge_defaults_keeps_user)
    also have "\<dots> = [u]"
      using assms u by (rule filter_distinct_key)
    finally show "filter (\<lambda>f. service_id f = service_id u) (merged_factories call services) = [u]" .
  qed
qed

text \<open>An instance: a user factory for the logger replaces the default one.\<close>

theorem merged_one_per_id_witness:
  "distinct (map service_id
     (factories [ArrayDef \<lparr>ref_id = ''logger'', ref_scope = Plugin\<rparr> (7::nat)]
        :: (unit, nat) service_factory list)) \<and>
   distinct (map service_id
     (merged_factories sample_call [ArrayDef \<lparr>ref_id = ''logger'', ref_scope = Plugin\<rparr> 7])) \<and>
   filter (\<lambda>f. service_id f = ''logger'')
     (merged_factories sample_call [ArrayDef \<lparr>ref_id = ''logger'', ref_scope = Plugin\<rparr> 7]) =
     [normalize_serviceDef (ArrayDef \<lparr>ref_id = ''logger'', ref_scope = Plugin\<rparr> 7)]"
proof -
  let ?S = "[ArrayDef \<lparr>ref_id = ''logger'', ref_scope = Plugin\<rparr> (7::nat)]
              :: (unit, nat) serviceDef list"
  let ?u = "normalize_serviceDef (ArrayDef \<lparr>ref_id = ''logger'', ref_scope = Plugin\<rparr> (7::nat))
              :: (unit, nat) service_factory"
  have d: "distinct (map service_id (factories ?S))"
    by (simp add: factories_def)
  have u: "?u \<in> set (factories ?S)"
    by (simp add: factories_def)
  have i: "service_id ?u = ''logger''"
    by (simp add: service_id_def createServiceFactory_def)
  note t = merged_one_per_id [OF d, of sample_call]
  from t have "distinct (map service_id (merged_factories sample_call ?S))"
    by (rule conjunct1)
  moreover from t u
  have "filter (\<lambda>f. service_id f = service_id ?u) (merged_factories sample_call ?S) = [?u]"
    by blast
  ultimately show ?thesis using d unfolding i by simp
qed

section \<open>Frame properties of the synthesized factories and of a call\<close>

lemma emit_fields [simp]:
  "cell (emit e w) = cell w"
  "next_free (emit e w) = next_free w"
  "events (emit e w) = events w @ [e]"
  "backendInstancesToCleanUp (emit e w) = backendInstancesToCleanUp w"
  "registered (emit e w) = registered w"
  "afterAll_callbacks (emit e w) = afterAll_callbacks w"
  by (simp_all add: emit_def)

lemma registry_push_fields [simp]:
  "cell (registry_push a b w) = cell w"
  "next_free (registry_push a b w) = next_free w"
  "events (registry_push a b w) = events w @ [RegistryPush a]"
  "backendInstancesToCleanUp (registry_push a b w) = backendInstancesToCleanUp w @ [b]"
  by (simp_all add: registry_push_def)

lemma let_server_fields [simp]:
  "fst (let_server w) = next_free w"
  "next_free (snd (let_server w)) = Suc (next_free w)"
  "events (snd (let_server w)) = events w"
  "backendInstancesToCleanUp (snd (let_server w)) = backendInstancesToCleanUp w"
  by (simp_all add: let_server_def)

lemma router_frame:
  "backendInstancesToCleanUp (snd (rootHttpRouterFactory a env w)) = backendInstancesToCleanUp w"
  "next_free (snd (rootHttpRouterFactory a env w)) = next_free w"
  by (simp_all add: rootHttpRouterFactory_def Let_def split: sum.splits)

lemma router_events:
  "\<exists>es. events (snd (rootHttpRouterFactory a env w)) = events w @ es \<and>
        (\<forall>b. RegistryPush b \<notin> set es)"
  by (cases "createHttpServer_outcome env"; cases "start_outcome env")
     (simp_all add: rootHttpRouterFactory_def Let_def)

lemma router_other_cell:
  "b \<noteq> a \<Longrightarrow> cell (snd (rootHttpRouterFactory a env w)) b = cell w b"
  by (simp add: rootHttpRouterFactory_def Let_def split: sum.splits)

lemma run_steps_frame:
  "backendInstancesToCleanUp (snd (run_steps a steps w)) = backendInstancesToCleanUp w \<and>
   next_free (snd (run_steps a steps w)) = next_free w \<and>
   (\<exists>es. events (snd (run_steps a steps w)) = events w @ es \<and>
         (\<forall>b. RegistryPush b \<notin> set es))"
proof (induction steps arbitrary: w)
  case Nil
  then show ?case by simp
next
  case (Cons step steps)
  show ?case
  proof (cases step)
    case (RunRouterFactory env)
    obtain r w' where rw: "rootHttpRouterFactory a env w = (r, w')"
      by (cases "rootHttpRouterFactory a env w")
    have fr: "backendInstancesToCleanUp w' = backendInstancesToCleanUp w \<and>
              next_free w' = next_free w"
      using router_frame [of a env w] rw by simp
    obtain es where es: "events w' = events w @ es" "\<forall>b. RegistryPush b \<notin> set es"
      using router_events [of a env w] rw by auto
    show ?thesis
    proof (cases r)
      case (Inl e)
      then show ?thesis using RunRouterFactory rw fr es by simp
    next
      case (Inr x)
      obtain es' where es': "events (snd (run_steps a steps w')) = events w' @ es'"
        "\<forall>b. RegistryPush b \<notin> set es'"
        using Cons.IH [of w'] by auto
      have "events (snd (run_steps a steps w')) = events w @ (es @ es') \<and>
            (\<forall>b. RegistryPush b \<notin> set (es @ es'))"
        using es es' by simp
      then have "\<exists>zs. events (snd (run_steps a steps w')) = events w @ zs \<and>
            (\<forall>b. RegistryPush b \<notin> set zs)"
        by blast
      then show ?thesis using Inr RunRouterFactory rw fr Cons.IH [of w'] by simp
    qed
  next
    case RunDiscoveryFactory
    then show ?thesis
      using Cons.IH [of w] by (cases "discoveryFactory a w") simp_all
  qed
qed

lemma backend_start_frame:
  "backendInstancesToCleanUp (snd (backend_start fw a w)) = backendInstancesToCleanUp w \<and>
   next_free (snd (backend_start fw a w)) = next_free w \<and>
   (\<exists>es. events (snd (backend_start fw a w)) = events w @ es \<and>
         (\<forall>b. RegistryPush b \<notin> set es))"
proof -
  obtain r w' where rs: "run_steps a (start_steps fw) w = (r, w')"
    by (cases "run_steps a (start_steps fw) w")
  then have "snd (backend_start fw a w) = w'"
    by (cases r) (simp_all add: backend_start_def)
  then show ?thesis
    using run_steps_frame [of a "start_steps fw" w] rs by simp
qed

text \<open>The state a call leaves behind, by how far the call gets.\<close>

lemma startTestBackend_not_created:
  assumes "createSpecializedBackend fw (backend_services cs call services (next_free w)) = Inl e"
  shows "startTestBackend cs call fw services w =
           (Inl e, emit (CreateSpecializedBackend (next_free w)) (snd (let_server w)))"
  using assms by (simp add: startTestBackend_def let_server_def Let_def)

lemma startTestBackend_not_added:
  assumes "createSpecializedBackend fw (backend_services cs call services (next_free w)) = Inr c"
    and "add_outcome fw = Inl e"
  shows "startTestBackend cs call fw services w =
           (Inl e, emit (BackendAdd (next_free w))
                     (registry_push (next_free w) c
                        (emit (CreateSpecializedBackend (next_free w)) (snd (let_server w)))))"
  using assms by (simp add: startTestBackend_def let_server_def Let_def)

lemma startTestBackend_started:
  assumes "createSpecializedBackend fw (backend_services cs call services (next_free w)) = Inr c"
    and "add_outcome fw = Inr ()"
  shows "snd (startTestBackend cs call fw services w) =
           snd (backend_start fw (next_free w)
                  (emit (BackendStart (next_free w))
                     (emit (BackendAdd (next_free w))
                        (registry_push (next_free w) c
                           (emit (CreateSpecializedBackend (next_free w))
                              (snd (let_server w)))))))"
  using assms
  by (simp add: startTestBackend_def let_server_def Let_def split: prod.splits sum.splits)

lemma startTestBackend_next_free:
  "next_free (snd (startTestBackend cs call fw services w)) = Suc (next_free w)"
proof (cases "createSpecializedBackend fw (backend_services cs call services (next_free w))")
  case (Inl e)
  then show ?thesis by (simp add: startTestBackend_not_created)
next
  case (Inr c)
  show ?thesis
  proof (cases "add_outcome fw")
    case (Inl e)
    then show ?thesis using Inr by (simp add: startTestBackend_not_added)
  next
    case (Inr u)
    then show ?thesis
      using \<open>createSpecializedBackend fw (backend_services cs call services (next_free w)) = Inr c\<close>
      by (simp add: startTestBackend_started backend_start_frame)
  qed
qed

text \<open>
  The list handed to \<^verbatim>\<open>createSpecializedBackend\<close>: the merged factories
  followed by the root HTTP router factory and the discovery factory.
\<close>

lemma backend_services_shape:
  "length (backend_services cs call services a) =
     length (merged_factories call services) + 2 \<and>
   map backend_service_id (backend_services cs call services a) =
     map service_id (merged_factories call services) @
     [ref_id (core_rootHttpRouter cs), ref_id (core_discovery cs)]"
  by (simp add: backend_services_def rootHttpRouterFactory_entry_def
      discoveryFactory_entry_def comp_def)

lemmas eval_defs =
  startTestBackend_def let_server_def backend_start_def server_getter_def
  rootHttpRouterFactory_def discoveryFactory_def shutdown_hook_fn_def app_use_def
  registry_push_def emit_def initial_world_def Let_def

section \<open>The server property of the returned backend\<close>

lemma server_getter_cases:
  "server_getter a w =
     (case cell w a of
        None \<Rightarrow> Inl (Error ''TestBackend server is not available'')
      | Some s \<Rightarrow> Inr s)"
  by (simp add: server_getter_def)

text \<open>
  A backend that is returned holds, as a plain property, the handle its
  binding held when the property was attached; reading it runs no getter.
\<close>

lemma startTestBackend_returned:
  "fst (startTestBackend cs call fw services w) = Inr tb \<Longrightarrow>
   cell (snd (startTestBackend cs call fw services w)) (next_free w) = Some (server tb)"
  by (auto simp: startTestBackend_def let_server_def server_getter_def Let_def
      split: sum.splits prod.splits option.splits)

text \<open>
  The getter is read while the property is attached: a start that succeeds
  with the binding still unassigned makes the call itself fail.
\<close>

lemma startTestBackend_reads_getter:
  assumes "createSpecializedBackend fw (backend_services cs call services (next_free w)) = Inr c"
    and "add_outcome fw = Inr ()"
    and "start_steps fw = []"
    and "start_result fw = Inr ()"
  shows "fst (startTestBackend cs call fw services w) =
           Inl (Error ''TestBackend server is not available'')"
  using assms
  by (simp add: startTestBackend_def let_server_def backend_start_def server_getter_def
      registry_push_def emit_def Let_def)


section \<open>Properties of the discovery factory\<close>

text \<open>
  The rendering of a number is its decimal numeral: digits only, read back as
  the number, and without a leading zero.
\<close>

lemma digit_cases:
  "d < (10::nat) \<Longrightarrow>
   d = 0 \<or> d = 1 \<or> d = 2 \<or> d = 3 \<or> d = 4 \<or> d = 5 \<or> d = 6 \<or> d = 7 \<or> d = 8 \<or> d = 9"
  by arith

lemma digit_value_digit_char:
  assumes "d < 10"
  shows "digit_value (digit_char d) = d"
  using digit_cases [OF assms] by (auto simp: digit_value_def digit_char_def)

lemma digit_char_in_digits:
  assumes "d < 10"
  shows "digit_char d \<in> set ''0123456789''"
  using digit_cases [OF assms] by (auto simp: digit_char_def)

lemma digit_char_zero: "d < 10 \<Longrightarrow> digit_char d = CHR ''0'' \<longleftrightarrow> d = 0"
proof -
  assume d: "d < 10"
  have "digit_value (CHR ''0'') = 0"
    by (simp add: digit_value_def)
  moreover have "digit_char 0 = CHR ''0''"
    by (simp add: digit_char_def)
  ultimately show ?thesis
    using digit_value_digit_char [OF d] by metis
qed

lemma decimal_value_snoc:
  "decimal_value (ds @ [c]) = 10 * decimal_value ds + digit_value c"
  by (simp add: decimal_value_def)

lemma string_of_nat_nonempty: "string_of_nat n \<noteq> []"
  by (subst string_of_nat.simps) simp

lemma decimal_value_string_of_nat: "decimal_value (string_of_nat n) = n"
proof (induction n rule: string_of_nat.induct)
  case (1 n)
  show ?case
  proof (cases "n < 10")
    case True
    then show ?thesis
      by (subst string_of_nat.simps) (simp add: decimal_value_def digit_value_digit_char)
  next
    case False
    then have "decimal_value (string_of_nat (n div 10)) = n div 10"
      using "1.IH" by simp
    then show ?thesis
      using False
      by (subst string_of_nat.simps)
         (simp add: decimal_value_snoc digit_value_digit_char)
  qed
qed

lemma string_of_nat_digits: "set (string_of_nat n) \<subseteq> set ''0123456789''"
proof (induction n rule: string_of_nat.induct)
  case (1 n)
  show ?case
  proof (cases "n < 10")
    case True
    then show ?thesis
      using digit_char_in_digits [of n] by (subst string_of_nat.simps) simp
  next
    case False
    then have "set (string_of_nat (n div 10)) \<subseteq> set ''0123456789''"
      using "1.IH" by simp
    moreover have "digit_char (n mod 10) \<in> set ''0123456789''"
      by (rule digit_char_in_digits) simp
    ultimately show ?thesis
      using False by (subst string_of_nat.simps) simp
  qed
qed

lemma string_of_nat_no_leading_zero: "0 < n \<Longrightarrow> hd (string_of_nat n) \<noteq> CHR ''0''"
proof (induction n rule: string_of_nat.induct)
  case (1 n)
  show ?case
  proof (cases "n < 10")
    case True
    then show ?thesis
      using "1.prems" digit_char_zero [of n] by (subst string_of_nat.simps) simp
  next
    case False
    then have "0 < n div 10" by simp
    then have "hd (string_of_nat (n div 10)) \<noteq> CHR ''0''"
      using "1.IH" False by simp
    then show ?thesis
      using False string_of_nat_nonempty [of "n div 10"]
      by (subst string_of_nat.simps) simp
  qed
qed

lemma string_of_nat_zero: "string_of_nat 0 = ''0''"
  by (simp add: string_of_nat.simps digit_char_def)

text \<open>
  Claim C5. The discovery factory fails with the error
  \<^verbatim>\<open>Test server not started yet\<close> exactly when the binding of the live
  server is unassigned, and it fails in no other case. Otherwise it reads the
  port of the server and returns a provider that yields a single-host
  discovery whose listen port is that port and whose base URL is
  \<^verbatim>\<open>http://localhost:\<close> followed by the decimal numeral of that same
  port: a nonempty string of decimal digits whose value is the port, with no
  leading zero unless the port is 0.
\<close>

theorem discovery_factory:
  "(discoveryFactory a w = Inl (Error ''Test server not started yet'') \<longleftrightarrow> cell w a = None) \<and>
   (isl (discoveryFactory a w) \<longleftrightarrow> cell w a = None) \<and>
   (cell w a = Some s \<longrightarrow>
      (\<exists>p digits. discoveryFactory a w = Inr p \<and>
           p () = SingleHostDiscovery
                    \<lparr>backend_baseUrl = ''http://localhost:'' @ digits,
                     backend_listen_port = server_port s\<rparr> \<and>
           digits = string_of_nat (server_port s) \<and>
           decimal_value digits = server_port s \<and>
           digits \<noteq> [] \<and>
           set digits \<subseteq> set ''0123456789'' \<and>
           (server_port s = 0 \<longrightarrow> digits = ''0'') \<and>
           (0 < server_port s \<longrightarrow> hd digits \<noteq> CHR ''0'')))"
proof -
  have "cell w a = Some s \<longrightarrow>
      (\<exists>p digits. discoveryFactory a w = Inr p \<and>
           p () = SingleHostDiscovery
                    \<lparr>backend_baseUrl = ''http://localhost:'' @ digits,
                     backend_listen_port = server_port s\<rparr> \<and>
           digits = string_of_nat (server_port s) \<and>
           decimal_value digits = server_port s \<and>
           digits \<noteq> [] \<and>
           set digits \<subseteq> set ''0123456789'' \<and>
           (server_port s = 0 \<longrightarrow> digits = ''0'') \<and>
           (0 < server_port s \<longrightarrow> hd digits \<noteq> CHR ''0''))"
    using decimal_value_string_of_nat [of "server_port s"]
      string_of_nat_nonempty [of "server_port s"]
      string_of_nat_digits [of "server_port s"]
      string_of_nat_no_leading_zero [of "server_port s"]
      string_of_nat_zero
    by (simp add: discoveryFactory_def Let_def)
  then show ?thesis
    by (simp add: discoveryFactory_def Let_def split: option.splits)
qed

text \<open>An instance: no server, and a server bound to port 40123.\<close>

theorem discovery_factory_witness:
  "discoveryFactory 0 (initial_world :: nat world) =
     Inl (Error ''Test server not started yet'') \<and>
   (\<exists>p. discoveryFactory 0
          ((initial_world :: nat world)
             \<lparr>cell := (\<lambda>_. None)(0 := Some \<lparr>server_handle = 1, server_port = 40123\<rparr>)\<rparr>) =
          Inr p \<and>
        p () = SingleHostDiscovery
                 \<lparr>backend_baseUrl = ''http://localhost:40123'', backend_listen_port = 40123\<rparr>) \<and>
   decimal_value ''40123'' = 40123"
proof -
  let ?s = "\<lparr>server_handle = 1, server_port = 40123\<rparr>"
  let ?w = "(initial_world :: nat world)\<lparr>cell := (\<lambda>_. None)(0 := Some ?s)\<rparr>"
  have "cell (initial_world :: nat world) 0 = None"
    by (simp add: initial_world_def)
  then have a: "discoveryFactory 0 (initial_world :: nat world) =
                Inl (Error ''Test server not started yet'')"
    using discovery_factory [of 0 "initial_world :: nat world" ?s] by blast
  have "cell ?w 0 = Some ?s"
    by simp
  then obtain p digits where p: "discoveryFactory 0 ?w = Inr p"
      "p () = SingleHostDiscovery
                 \<lparr>backend_baseUrl = ''http://localhost:'' @ digits,
                  backend_listen_port = server_port ?s\<rparr>"
      "digits = string_of_nat (server_port ?s)"
      "decimal_value digits = server_port ?s"
    using discovery_factory [of 0 ?w ?s] by blast
  have d: "string_of_nat 40123 = ''40123''"
    by (simp add: string_of_nat.simps digit_char_def)
  have "digits = ''40123''"
    using p(3) d by simp
  then show ?thesis using a p by auto
qed

section \<open>Properties of the root HTTP router factory\<close>

text \<open>
  Claim C6 as stated fails in its order: the shutdown hook is registered
  before the server is started, not after. In a run where every awaited call
  succeeds, no hook registration follows the start call, and the start call
  follows the hook registration.
\<close>

theorem router_factory_order_counterexample:
  "\<not> occurs_before (ServerStart \<lparr>server_handle = 1, server_port = 40123\<rparr>) (AddShutdownHook 0)
       (events (snd (rootHttpRouterFactory 0
          \<lparr>createHttpServer_outcome = Inr \<lparr>server_handle = 1, server_port = 40123\<rparr>,
           start_outcome = Inr ()\<rparr> (initial_world :: nat world)))) \<and>
   occurs_before (AddShutdownHook 0) (ServerStart \<lparr>server_handle = 1, server_port = 40123\<rparr>)
       (events (snd (rootHttpRouterFactory 0
          \<lparr>createHttpServer_outcome = Inr \<lparr>server_handle = 1, server_port = 40123\<rparr>,
           start_outcome = Inr ()\<rparr> (initial_world :: nat world))))"
  by (simp add: rootHttpRouterFactory_def app_use_def emit_def initial_world_def Let_def)

text \<open>
  Claim C6, amended. When its awaited calls succeed, the router factory puts
  the handler of the router into the pipeline of the application in front of
  the not-found and the error middleware, creates a server for that
  application with an empty host and port 0, assigns the created handle to
  the binding of the live server (one assignment), then registers a shutdown
  hook, then starts the server, and returns the router: these calls are made
  in this order and nothing else changes. The registered hook, when it runs,
  stops that server.
\<close>

theorem router_factory_steps:
  "createHttpServer_outcome env = Inr srv \<and> start_outcome env = Inr () \<longrightarrow>
     rootHttpRouterFactory a env w =
       (Inr DefaultRootHttpRouter,
        w\<lparr>cell := (cell w)(a := Some srv),
          events := events w @
            [CreateHttpServer [router_handler, middleware_notFound, middleware_error]
               \<lparr>listen_host = [], listen_port = 0\<rparr>,
             SlotAssign a srv, AddShutdownHook a, ServerStart srv]\<rparr>) \<and>
     shutdown_hook_fn a (snd (rootHttpRouterFactory a env w)) =
       (Inr (), emit (ServerStop srv) (snd (rootHttpRouterFactory a env w)))"
  by (simp add: rootHttpRouterFactory_def shutdown_hook_fn_def app_use_def emit_def Let_def)

text \<open>An instance: the first binding and a server bound to port 40123.\<close>

theorem router_factory_steps_witness:
  "rootHttpRouterFactory 0
     \<lparr>createHttpServer_outcome = Inr \<lparr>server_handle = 1, server_port = 40123\<rparr>,
      start_outcome = Inr ()\<rparr> (initial_world :: nat world) =
     (Inr DefaultRootHttpRouter,
      initial_world
        \<lparr>cell := (\<lambda>_. None)(0 := Some \<lparr>server_handle = 1, server_port = 40123\<rparr>),
         events :=
           [CreateHttpServer [router_handler, middleware_notFound, middleware_error]
              \<lparr>listen_host = [], listen_port = 0\<rparr>,
            SlotAssign 0 \<lparr>server_handle = 1, server_port = 40123\<rparr>, AddShutdownHook 0,
            ServerStart \<lparr>server_handle = 1, server_port = 40123\<rparr>]\<rparr>) \<and>
   fst (shutdown_hook_fn 0 (snd (rootHttpRouterFactory 0
     \<lparr>createHttpServer_outcome = Inr \<lparr>server_handle = 1, server_port = 40123\<rparr>,
      start_outcome = Inr ()\<rparr> (initial_world :: nat world)))) = Inr ()"
proof -
  let ?env = "\<lparr>createHttpServer_outcome = Inr \<lparr>server_handle = 1, server_port = 40123\<rparr>,
      start_outcome = Inr ()\<rparr>"
  let ?s = "\<lparr>server_handle = 1, server_port = 40123\<rparr>"
  let ?w = "initial_world :: nat world"
  have ok: "createHttpServer_outcome ?env = Inr ?s \<and> start_outcome ?env = Inr ()"
    by simp
  have init: "cell ?w = (\<lambda>_. None)" "events ?w = []"
    by (simp_all add: initial_world_def)
  note t = router_factory_steps [of ?env ?s 0 ?w]
  from t ok have run: "rootHttpRouterFactory 0 ?env ?w =
       (Inr DefaultRootHttpRouter,
        ?w\<lparr>cell := (cell ?w)(0 := Some ?s),
           events := events ?w @
            [CreateHttpServer [router_handler, middleware_notFound, middleware_error]
               \<lparr>listen_host = [], listen_port = 0\<rparr>,
             SlotAssign 0 ?s, AddShutdownHook 0, ServerStart ?s]\<rparr>)"
    by blast
  from t ok have hook: "shutdown_hook_fn 0 (snd (rootHttpRouterFactory 0 ?env ?w)) =
       (Inr (), emit (ServerStop ?s) (snd (rootHttpRouterFactory 0 ?env ?w)))"
    by blast
  have "fst (shutdown_hook_fn 0 (snd (rootHttpRouterFactory 0 ?env ?w))) = Inr ()"
    by (simp only: hook fst_conv)
  moreover from run have "rootHttpRouterFactory 0 ?env ?w =
       (Inr DefaultRootHttpRouter,
        ?w\<lparr>cell := (\<lambda>_. None)(0 := Some ?s),
           events :=
            [CreateHttpServer [router_handler, middleware_notFound, middleware_error]
               \<lparr>listen_host = [], listen_port = 0\<rparr>,
             SlotAssign 0 ?s, AddShutdownHook 0, ServerStart ?s]\<rparr>)"
    by (simp only: init append_Nil)
  ultimately show ?thesis by blast
qed

section \<open>Properties of the global teardown\<close>

lemma map_stop_eq:
  "map_stop stop bs w =
     (replicate (length bs) (Inr ()),
      w\<lparr>stop_calls := stop_calls w @ bs,
        console_error := console_error w @
          concat (map (\<lambda>b. case stop b of
                              Inl e \<Rightarrow> [''Failed to stop backend after tests, '' @
                                          error_to_string e]
                            | Inr _ \<Rightarrow> []) bs)\<rparr>)"
proof (induction bs arbitrary: w)
  case Nil
  then show ?case by simp
next
  case (Cons b bs)
  show ?case
    by (cases "stop b") (simp_all add: stop_backend_def Cons.IH Let_def)
qed

lemma Promise_all_replicate: "Promise_all (replicate n (Inr x)) = Inr (replicate n x)"
  by (induction n) simp_all

text \<open>
  Claim C7. When the teardown callback runs, every backend of the registry
  receives a stop call, in registry order and whatever the other stop calls
  do; each rejected stop call is caught and written to the error stream; the
  callback itself completes without an error; and the registry is empty
  afterwards.
\<close>

theorem teardown_stops_all:
  "fst (afterAll_callback stop w) = Inr () \<and>
   stop_calls (snd (afterAll_callback stop w)) = stop_calls w @ backendInstancesToCleanUp w \<and>
   console_error (snd (afterAll_callback stop w)) =
     console_error w @
     concat (map (\<lambda>b. case stop b of
                         Inl e \<Rightarrow> [''Failed to stop backend after tests, '' @
                                     error_to_string e]
                       | Inr _ \<Rightarrow> []) (backendInstancesToCleanUp w)) \<and>
   backendInstancesToCleanUp (snd (afterAll_callback stop w)) = []"
  by (simp add: afterAll_callback_def map_stop_eq Promise_all_replicate)

text \<open>
  An instance: two backends in the registry, the stop call of the first one
  rejected.
\<close>

theorem teardown_stops_all_witness:
  "fst (afterAll_callback (\<lambda>b. if b = 1 then Inl (Error ''boom'') else Inr ())
         ((initial_world :: nat world)\<lparr>backendInstancesToCleanUp := [1, 2]\<rparr>)) = Inr () \<and>
   stop_calls (snd (afterAll_callback (\<lambda>b. if b = 1 then Inl (Error ''boom'') else Inr ())
         ((initial_world :: nat world)\<lparr>backendInstancesToCleanUp := [1, 2]\<rparr>))) = [1, 2] \<and>
   console_error (snd (afterAll_callback (\<lambda>b. if b = 1 then Inl (Error ''boom'') else Inr ())
         ((initial_world :: nat world)\<lparr>backendInstancesToCleanUp := [1, 2]\<rparr>))) =
     [''Failed to stop backend after tests, Error: boom''] \<and>
   backendInstancesToCleanUp
     (snd (afterAll_callback (\<lambda>b. if b = 1 then Inl (Error ''boom'') else Inr ())
         ((initial_world :: nat world)\<lparr>backendInstancesToCleanUp := [1, 2]\<rparr>))) = []"
  using teardown_stops_all [of "\<lambda>b. if b = 1 then Inl (Error ''boom'') else Inr ()"
      "(initial_world :: nat world)\<lparr>backendInstancesToCleanUp := [1, 2]\<rparr>"]
  by (simp add: initial_world_def)

section \<open>Properties of the cleanup registry\<close>

text \<open>
  Claim C8 as stated fails: the backend is pushed onto the registry before
  the start, so a call whose start fails has changed the registry. Here the
  start is rejected and the created backend is in the registry, which was
  empty before the call.
\<close>

theorem registry_failed_start_counterexample:
  "fst (startTestBackend sample_coreServices sample_call
         \<lparr>createSpecializedBackend = (\<lambda>_. Inr (1::nat)), add_outcome = Inr (),
          start_steps = [], start_result = Inl (Error ''start failed'')\<rparr> [] initial_world) =
     Inl (Error ''start failed'') \<and>
   backendInstancesToCleanUp (snd (startTestBackend sample_coreServices sample_call
         \<lparr>createSpecializedBackend = (\<lambda>_. Inr (1::nat)), add_outcome = Inr (),
          start_steps = [], start_result = Inl (Error ''start failed'')\<rparr> [] initial_world)) =
     [1] \<and>
   backendInstancesToCleanUp (initial_world :: nat world) = []"
  by (simp add: eval_defs)

text \<open>
  Claim C8, amended. A backend instance is appended to the cleanup registry
  exactly when \<^verbatim>\<open>createSpecializedBackend\<close> has returned it, before the
  features are added and before the start: a call whose backend creation
  fails leaves the registry unchanged, and every call that creates its
  backend adds that instance once, at the end of the registry, whether or not
  adding the features and starting then succeed. The push is the first step
  after the creation, it precedes the \<^verbatim>\<open>backend.add\<close> calls and the
  \<^verbatim>\<open>backend.start()\<close> call, and nothing of what follows pushes again.
  The step recorded as a push is the one that appends to the registry.
\<close>

theorem registry_append_on_create:
  "(createSpecializedBackend fw (backend_services cs call services (next_free w)) = Inl e \<longrightarrow>
      backendInstancesToCleanUp (snd (startTestBackend cs call fw services w)) =
        backendInstancesToCleanUp w \<and>
      events (snd (startTestBackend cs call fw services w)) =
        events w @ [CreateSpecializedBackend (next_free w)]) \<and>
   (createSpecializedBackend fw (backend_services cs call services (next_free w)) = Inr c \<longrightarrow>
      backendInstancesToCleanUp (snd (startTestBackend cs call fw services w)) =
        backendInstancesToCleanUp w @ [c] \<and>
      (add_outcome fw = Inl e' \<longrightarrow>
         events (snd (startTestBackend cs call fw services w)) =
           events w @ [CreateSpecializedBackend (next_free w), RegistryPush (next_free w),
                       BackendAdd (next_free w)]) \<and>
      (add_outcome fw = Inr () \<longrightarrow>
         (\<exists>rest. events (snd (startTestBackend cs call fw services w)) =
                   events w @ [CreateSpecializedBackend (next_free w),
                               RegistryPush (next_free w), BackendAdd (next_free w),
                               BackendStart (next_free w)] @ rest \<and>
                 (\<forall>b. RegistryPush b \<notin> set rest)))) \<and>
   backendInstancesToCleanUp (registry_push a b v) = backendInstancesToCleanUp v @ [b] \<and>
   events (registry_push a b v) = events v @ [RegistryPush a]"
proof (intro conjI impI)
  show "backendInstancesToCleanUp (registry_push a b v) = backendInstancesToCleanUp v @ [b]"
    and "events (registry_push a b v) = events v @ [RegistryPush a]"
    by simp_all
next
  assume "createSpecializedBackend fw (backend_services cs call services (next_free w)) = Inl e"
  then show "backendInstancesToCleanUp (snd (startTestBackend cs call fw services w)) =
        backendInstancesToCleanUp w"
    and "events (snd (startTestBackend cs call fw services w)) =
        events w @ [CreateSpecializedBackend (next_free w)]"
    by (simp_all add: startTestBackend_not_created)
next
  assume c: "createSpecializedBackend fw (backend_services cs call services (next_free w)) = Inr c"
  show "backendInstancesToCleanUp (snd (startTestBackend cs call fw services w)) =
        backendInstancesToCleanUp w @ [c]"
  proof (cases "add_outcome fw")
    case (Inl x)
    then show ?thesis using c by (simp add: startTestBackend_not_added)
  next
    case (Inr u)
    then show ?thesis using c by (simp add: startTestBackend_started backend_start_frame)
  qed
  {
    assume "add_outcome fw = Inl e'"
    then show "events (snd (startTestBackend cs call fw services w)) =
           events w @ [CreateSpecializedBackend (next_free w), RegistryPush (next_free w),
                       BackendAdd (next_free w)]"
      using c by (simp add: startTestBackend_not_added)
  }
  {
    assume a: "add_outcome fw = Inr ()"
    let ?w4 = "emit (BackendStart (next_free w))
                     (emit (BackendAdd (next_free w))
                        (registry_push (next_free w) c
                           (emit (CreateSpecializedBackend (next_free w))
                              (snd (let_server w)))))"
    obtain es where es: "events (snd (backend_start fw (next_free w) ?w4)) = events ?w4 @ es"
      "\<forall>b. RegistryPush b \<notin> set es"
      using backend_start_frame [of fw "next_free w" ?w4] by blast
    have "events (snd (startTestBackend cs call fw services w)) =
            events w @ [CreateSpecializedBackend (next_free w),
                        RegistryPush (next_free w), BackendAdd (next_free w),
                        BackendStart (next_free w)] @ es"
      using c a es(1) by (simp add: startTestBackend_started)
    then show "\<exists>rest. events (snd (startTestBackend cs call fw services w)) =
                   events w @ [CreateSpecializedBackend (next_free w),
                               RegistryPush (next_free w), BackendAdd (next_free w),
                               BackendStart (next_free w)] @ rest \<and>
                 (\<forall>b. RegistryPush b \<notin> set rest)"
      using es(2) by blast
  }
qed

text \<open>
  An instance: a call whose \<^verbatim>\<open>backend.add\<close> throws, a call whose backend
  creation throws, and a call whose start is rejected.
\<close>

theorem registry_append_on_create_witness:
  "backendInstancesToCleanUp (snd (startTestBackend sample_coreServices sample_call
         \<lparr>createSpecializedBackend = (\<lambda>_. Inr (1::nat)), add_outcome = Inl (Error ''add failed''),
          start_steps = [], start_result = Inr ()\<rparr> [] initial_world)) = [1] \<and>
   events (snd (startTestBackend sample_coreServices sample_call
         \<lparr>createSpecializedBackend = (\<lambda>_. Inr (1::nat)), add_outcome = Inl (Error ''add failed''),
          start_steps = [], start_result = Inr ()\<rparr> [] initial_world)) =
     [CreateSpecializedBackend 0, RegistryPush 0, BackendAdd 0] \<and>
   backendInstancesToCleanUp (snd (startTestBackend sample_coreServices sample_call
         \<lparr>createSpecializedBackend = (\<lambda>_. Inl (Error ''no backend'')), add_outcome = Inr (),
          start_steps = [], start_result = Inr ()\<rparr> [] (initial_world :: nat world))) = [] \<and>
   events (snd (startTestBackend sample_coreServices sample_call
         \<lparr>createSpecializedBackend = (\<lambda>_. Inl (Error ''no backend'')), add_outcome = Inr (),
          start_steps = [], start_result = Inr ()\<rparr> [] (initial_world :: nat world))) =
     [CreateSpecializedBackend 0] \<and>
   backendInstancesToCleanUp (snd (startTestBackend sample_coreServices sample_call
         \<lparr>createSpecializedBackend = (\<lambda>_. Inr (1::nat)), add_outcome = Inr (),
          start_steps = [], start_result = Inl (Error ''start failed'')\<rparr> [] initial_world)) =
     [1] \<and>
   take 4 (events (snd (startTestBackend sample_coreServices sample_call
         \<lparr>createSpecializedBackend = (\<lambda>_. Inr (1::nat)), add_outcome = Inr (),
          start_steps = [], start_result = Inl (Error ''start failed'')\<rparr> [] initial_world))) =
     [CreateSpecializedBackend 0, RegistryPush 0, BackendAdd 0, BackendStart 0]"
proof -
  let ?w = "initial_world :: nat world"
  let ?fw1 = "\<lparr>createSpecializedBackend = (\<lambda>_. Inr (1::nat)),
               add_outcome = Inl (Error ''add failed''),
               start_steps = [], start_result = Inr ()\<rparr> :: (unit, nat, nat) framework"
  let ?fw2 = "\<lparr>createSpecializedBackend = (\<lambda>_. Inl (Error ''no backend'')),
               add_outcome = Inr (),
               start_steps = [], start_result = Inr ()\<rparr> :: (unit, nat, nat) framework"
  let ?fw3 = "\<lparr>createSpecializedBackend = (\<lambda>_. Inr (1::nat)),
               add_outcome = Inr (),
               start_steps = [], start_result = Inl (Error ''start failed'')\<rparr>
                :: (unit, nat, nat) framework"
  have init: "next_free ?w = 0" "events ?w = []" "backendInstancesToCleanUp ?w = []"
    by (simp_all add: initial_world_def)
  have c1: "createSpecializedBackend ?fw1
              (backend_services sample_coreServices sample_call [] (next_free ?w)) = Inr 1"
    and a1: "add_outcome ?fw1 = Inl (Error ''add failed'')"
    and c2: "createSpecializedBackend ?fw2
              (backend_services sample_coreServices sample_call [] (next_free ?w)) =
             Inl (Error ''no backend'')"
    and c3: "createSpecializedBackend ?fw3
              (backend_services sample_coreServices sample_call [] (next_free ?w)) = Inr 1"
    and a3: "add_outcome ?fw3 = Inr ()"
    by simp_all
  note t1 = registry_append_on_create [of ?fw1 sample_coreServices sample_call "[]" ?w
      "Error ''no backend''" 1 "Error ''add failed''" 0 1 ?w]
  note t2 = registry_append_on_create [of ?fw2 sample_coreServices sample_call "[]" ?w
      "Error ''no backend''" 1 "Error ''add failed''" 0 1 ?w]
  note t3 = registry_append_on_create [of ?fw3 sample_coreServices sample_call "[]" ?w
      "Error ''no backend''" 1 "Error ''add failed''" 0 1 ?w]
  from t1 c1 a1
  have r1: "backendInstancesToCleanUp
          (snd (startTestBackend sample_coreServices sample_call ?fw1 [] ?w)) =
          backendInstancesToCleanUp ?w @ [1]"
    and e1: "events (snd (startTestBackend sample_coreServices sample_call ?fw1 [] ?w)) =
          events ?w @ [CreateSpecializedBackend (next_free ?w), RegistryPush (next_free ?w),
                       BackendAdd (next_free ?w)]"
    by blast+
  from t2 c2
  have r2: "backendInstancesToCleanUp
          (snd (startTestBackend sample_coreServices sample_call ?fw2 [] ?w)) =
          backendInstancesToCleanUp ?w"
    and e2: "events (snd (startTestBackend sample_coreServices sample_call ?fw2 [] ?w)) =
          events ?w @ [CreateSpecializedBackend (next_free ?w)]"
    by blast+
  from t3 c3
  have r3: "backendInstancesToCleanUp
          (snd (startTestBackend sample_coreServices sample_call ?fw3 [] ?w)) =
          backendInstancesToCleanUp ?w @ [1]"
    by blast
  from t3 c3 a3
  obtain rest where "events (snd (startTestBackend sample_coreServices sample_call ?fw3 [] ?w)) =
          events ?w @ [CreateSpecializedBackend (next_free ?w), RegistryPush (next_free ?w),
                       BackendAdd (next_free ?w), BackendStart (next_free ?w)] @ rest"
    by blast
  then have e3: "take 4 (events (snd (startTestBackend sample_coreServices sample_call ?fw3 []
                    ?w))) =
          [CreateSpecializedBackend 0, RegistryPush 0, BackendAdd 0, BackendStart 0]"
    by (simp add: init)
  show ?thesis
    using r1 e1 r2 e2 r3 e3 by (simp only: init append_Nil simp_thms)
qed

section \<open>Properties of the binding of the live server\<close>

text \<open>No step of the process gives an address back.\<close>

lemma step_next_free: "step call w w' \<Longrightarrow> next_free w \<le> next_free w'"
proof (induction rule: step.induct)
  case (step_call w cs fw services)
  then show ?case by (simp add: startTestBackend_next_free)
next
  case (step_declare w)
  then show ?case by simp
next
  case (step_push w a b)
  then show ?case by simp
next
  case (step_router w a env)
  then show ?case by (simp add: router_frame)
next
  case (step_hook w a)
  then show ?case by (simp add: shutdown_hook_fn_def split: option.splits)
next
  case (step_teardown w stop)
  then show ?case
    by (simp add: afterAll_callback_def map_stop_eq Promise_all_replicate)
next
  case (step_register w p)
  then show ?case by (simp add: registerTestHooks_def)
qed

lemma steps_next_free: "(step call)\<^sup>*\<^sup>* w w' \<Longrightarrow> next_free w \<le> next_free w'"
  by (induction rule: rtranclp_induct) (auto dest: step_next_free)

text \<open>
  Claim C9 as stated fails: the variable is declared inside
  \<^verbatim>\<open>startTestBackend\<close>, so two calls do not share it. After two calls, each
  of which ran its router factory, the binding of the first call still holds
  the first server and the binding of the second call holds the second one,
  and the shutdown hook of the first call stops the first server.
\<close>

theorem shared_slot_counterexample:
  "cell (snd (startTestBackend sample_coreServices sample_call
          \<lparr>createSpecializedBackend = (\<lambda>_. Inr (2::nat)), add_outcome = Inr (),
           start_steps =
             [RunRouterFactory
                \<lparr>createHttpServer_outcome = Inr \<lparr>server_handle = 2, server_port = 40456\<rparr>,
                 start_outcome = Inr ()\<rparr>],
           start_result = Inr ()\<rparr> []
          (snd (startTestBackend sample_coreServices sample_call
            \<lparr>createSpecializedBackend = (\<lambda>_. Inr 1), add_outcome = Inr (),
             start_steps =
               [RunRouterFactory
                  \<lparr>createHttpServer_outcome = Inr \<lparr>server_handle = 1, server_port = 40123\<rparr>,
                   start_outcome = Inr ()\<rparr>],
             start_result = Inr ()\<rparr> [] initial_world)))) 0 =
     Some \<lparr>server_handle = 1, server_port = 40123\<rparr> \<and>
   cell (snd (startTestBackend sample_coreServices sample_call
          \<lparr>createSpecializedBackend = (\<lambda>_. Inr (2::nat)), add_outcome = Inr (),
           start_steps =
             [RunRouterFactory
                \<lparr>createHttpServer_outcome = Inr \<lparr>server_handle = 2, server_port = 40456\<rparr>,
                 start_outcome = Inr ()\<rparr>],
           start_result = Inr ()\<rparr> []
          (snd (startTestBackend sample_coreServices sample_call
            \<lparr>createSpecializedBackend = (\<lambda>_. Inr 1), add_outcome = Inr (),
             start_steps =
               [RunRouterFactory
                  \<lparr>createHttpServer_outcome = Inr \<lparr>server_handle = 1, server_port = 40123\<rparr>,
                   start_outcome = Inr ()\<rparr>],
             start_result = Inr ()\<rparr> [] initial_world)))) 1 =
     Some \<lparr>server_handle = 2, server_port = 40456\<rparr> \<and>
   last (events (snd (shutdown_hook_fn 0
     (snd (startTestBackend sample_coreServices sample_call
          \<lparr>createSpecializedBackend = (\<lambda>_. Inr (2::nat)), add_outcome = Inr (),
           start_steps =
             [RunRouterFactory
                \<lparr>createHttpServer_outcome = Inr \<lparr>server_handle = 2, server_port = 40456\<rparr>,
                 start_outcome = Inr ()\<rparr>],
           start_result = Inr ()\<rparr> []
          (snd (startTestBackend sample_coreServices sample_call
            \<lparr>createSpecializedBackend = (\<lambda>_. Inr 1), add_outcome = Inr (),
             start_steps =
               [RunRouterFactory
                  \<lparr>createHttpServer_outcome = Inr \<lparr>server_handle = 1, server_port = 40123\<rparr>,
                   start_outcome = Inr ()\<rparr>],
             start_result = Inr ()\<rparr> [] initial_world))))))) =
     ServerStop \<lparr>server_handle = 1, server_port = 40123\<rparr>"
  by (simp add: eval_defs)

text \<open>
  Claim C9, amended. The live-server slot is a variable of each
  \<^verbatim>\<open>startTestBackend\<close> activation, captured by the factories and the
  accessor that activation builds. Any two invocations have distinct
  bindings: whatever the process does after one invocation has declared its
  binding, or after it has returned, the binding a later invocation declares
  is another one. The router factory of one binding leaves every other
  binding as it was, so what the discovery factory and the getter of another
  invocation read is unchanged.
\<close>

theorem slot_per_activation:
  "((step call)\<^sup>*\<^sup>* (snd (let_server w)) w' \<longrightarrow>
      fst (let_server w') \<noteq> fst (let_server w)) \<and>
   ((step call)\<^sup>*\<^sup>* (snd (startTestBackend cs call fw services w)) w' \<longrightarrow>
      fst (let_server w') \<noteq> fst (let_server w)) \<and>
   (b \<noteq> a \<longrightarrow>
      cell (snd (rootHttpRouterFactory a env w)) b = cell w b \<and>
      discoveryFactory b (snd (rootHttpRouterFactory a env w)) = discoveryFactory b w \<and>
      server_getter b (snd (rootHttpRouterFactory a env w)) = server_getter b w)"
proof (intro conjI impI)
  assume "(step call)\<^sup>*\<^sup>* (snd (let_server w)) w'"
  then have "Suc (next_free w) \<le> next_free w'"
    using steps_next_free [of call "snd (let_server w)" w'] by simp
  then show "fst (let_server w') \<noteq> fst (let_server w)"
    by simp
next
  assume "(step call)\<^sup>*\<^sup>* (snd (startTestBackend cs call fw services w)) w'"
  then have "Suc (next_free w) \<le> next_free w'"
    using steps_next_free [of call "snd (startTestBackend cs call fw services w)" w']
    by (simp add: startTestBackend_next_free)
  then show "fst (let_server w') \<noteq> fst (let_server w)"
    by simp
next
  assume ne: "b \<noteq> a"
  then show "cell (snd (rootHttpRouterFactory a env w)) b = cell w b"
    by (rule router_other_cell)
  then show "discoveryFactory b (snd (rootHttpRouterFactory a env w)) = discoveryFactory b w"
    and "server_getter b (snd (rootHttpRouterFactory a env w)) = server_getter b w"
    by (simp_all add: discoveryFactory_def server_getter_def)
qed

text \<open>
  An instance: the third of three calls, the second of two overlapping calls,
  and the router factory of binding 0 next to binding 1.
\<close>

theorem slot_per_activation_witness:
  "fst (let_server
         (snd (startTestBackend sample_coreServices sample_call
           \<lparr>createSpecializedBackend = (\<lambda>_. Inr (2::nat)), add_outcome = Inr (),
            start_steps = [], start_result = Inr ()\<rparr> []
           (snd (startTestBackend sample_coreServices sample_call
             \<lparr>createSpecializedBackend = (\<lambda>_. Inr (1::nat)), add_outcome = Inr (),
              start_steps = [], start_result = Inr ()\<rparr> [] initial_world))))) \<noteq>
     fst (let_server (initial_world :: nat world)) \<and>
   fst (let_server
         (snd (startTestBackend sample_coreServices sample_call
           \<lparr>createSpecializedBackend = (\<lambda>_. Inr (2::nat)), add_outcome = Inr (),
            start_steps = [], start_result = Inr ()\<rparr> []
           (snd (startTestBackend sample_coreServices sample_call
             \<lparr>createSpecializedBackend = (\<lambda>_. Inr (1::nat)), add_outcome = Inr (),
              start_steps = [], start_result = Inr ()\<rparr> [] initial_world))))) = 2 \<and>
   fst (let_server (initial_world :: nat world)) = 0 \<and>
   fst (let_server (snd (let_server (initial_world :: nat world)))) \<noteq>
     fst (let_server (initial_world :: nat world)) \<and>
   server_getter 1 (snd (rootHttpRouterFactory 0
       \<lparr>createHttpServer_outcome = Inr \<lparr>server_handle = 1, server_port = 40123\<rparr>,
        start_outcome = Inr ()\<rparr> (initial_world :: nat world))) =
     Inl (Error ''TestBackend server is not available'')"
proof -
  let ?env = "\<lparr>createHttpServer_outcome = Inr \<lparr>server_handle = 1, server_port = 40123\<rparr>,
        start_outcome = Inr ()\<rparr>"
  let ?fw1 = "\<lparr>createSpecializedBackend = (\<lambda>_. Inr (1::nat)), add_outcome = Inr (),
          start_steps = [], start_result = Inr ()\<rparr> :: (unit, nat, nat) framework"
  let ?fw2 = "\<lparr>createSpecializedBackend = (\<lambda>_. Inr (2::nat)), add_outcome = Inr (),
          start_steps = [], start_result = Inr ()\<rparr> :: (unit, nat, nat) framework"
  let ?w = "initial_world :: nat world"
  let ?w1 = "snd (startTestBackend sample_coreServices sample_call ?fw1 [] ?w)"
  let ?w2 = "snd (startTestBackend sample_coreServices sample_call ?fw2 [] ?w1)"
  note t = slot_per_activation [of sample_call ?w ?w2 sample_coreServices ?fw1 "[]" 1 0 ?env]
  have "step sample_call ?w1 ?w2"
    by (rule step_call)
  then have reach: "(step sample_call)\<^sup>*\<^sup>* ?w1 ?w2"
    by (rule r_into_rtranclp)
  have ne: "(1::nat) \<noteq> 0"
    by simp
  from t reach have "fst (let_server ?w2) \<noteq> fst (let_server ?w)"
    by blast
  moreover have "fst (let_server ?w2) = 2"
    by (simp add: startTestBackend_next_free initial_world_def)
  moreover have "fst (let_server ?w) = 0"
    by (simp add: initial_world_def)
  moreover have "fst (let_server (snd (let_server ?w))) \<noteq> fst (let_server ?w)"
  proof -
    note overlap =
      slot_per_activation [of sample_call ?w "snd (let_server ?w)" sample_coreServices ?fw1
        "[]" 1 0 ?env]
    have "(step sample_call)\<^sup>*\<^sup>* (snd (let_server ?w)) (snd (let_server ?w))"
      by (rule rtranclp.rtrancl_refl)
    with overlap show ?thesis by blast
  qed
  moreover from t ne
  have "server_getter 1 (snd (rootHttpRouterFactory 0 ?env ?w)) = server_getter 1 ?w"
    by blast
  then have "server_getter 1 (snd (rootHttpRouterFactory 0 ?env ?w)) =
     Inl (Error ''TestBackend server is not available'')"
    by (simp add: initial_world_def server_getter_def)
  ultimately show ?thesis by blast
qed

section \<open>Properties of the hook registration\<close>

lemma registerTestHooks_funpow:
  "afterAll_callbacks ((registerTestHooks True ^^ n) w) =
     afterAll_callbacks w + (if registered w \<or> n = 0 then 0 else 1) \<and>
   registered ((registerTestHooks True ^^ n) w) = (registered w \<or> 0 < n)"
proof (induction n)
  case 0
  then show ?case by simp
next
  case (Suc n)
  then show ?case by (auto simp: registerTestHooks_def)
qed

text \<open>
  Claim C10. When \<^verbatim>\<open>afterAll\<close> is not a function,
  \<^verbatim>\<open>registerTestHooks\<close> changes nothing. When it is, \<open>n\<close> calls hand
  a callback to \<^verbatim>\<open>afterAll\<close> once if none was registered before and
  \<open>n\<close> is positive, and not at all otherwise; from the state in which the
  module is loaded, any positive number of calls registers exactly one
  callback.
\<close>

theorem registerTestHooks_once:
  "registerTestHooks False (w :: 'b world) = w \<and>
   afterAll_callbacks ((registerTestHooks True ^^ n) w) =
     afterAll_callbacks w + (if registered w \<or> n = 0 then 0 else 1) \<and>
   afterAll_callbacks ((registerTestHooks True ^^ Suc n) (initial_world :: 'b world)) = 1"
proof -
  have "afterAll_callbacks ((registerTestHooks True ^^ Suc n) (initial_world :: 'b world)) = 1"
    using registerTestHooks_funpow [of "Suc n" "initial_world :: 'b world"]
    by (simp add: initial_world_def)
  then show ?thesis
    using registerTestHooks_funpow [of n w] by (simp add: registerTestHooks_def)
qed

text \<open>An instance: no test framework, and three calls under a test framework.\<close>

theorem registerTestHooks_once_witness:
  "registerTestHooks False (initial_world :: nat world) = initial_world \<and>
   afterAll_callbacks
     (registerTestHooks True (registerTestHooks True (registerTestHooks True
        (initial_world :: nat world)))) = 1"
  using registerTestHooks_once [of "initial_world :: nat world" 2]
  by (simp add: numeral_2_eq_2)

end
